theory Spec2Isabelle
  imports Complex_Main "HOL-Library.Signed_Division" "HOL-Library.Log_Nat"
begin

section \<open>Gas fee tiers\<close>

text \<open>
  Fee amounts are JavaScript BigInt values: arbitrary-precision integers, modelled as
  \<open>int\<close>. BigInt division truncates toward zero, which is \<open>sdiv\<close> and not \<open>div\<close>.
  The source scales a fee with the expression \<^verbatim>\<open>x * BigInt(p) / BigInt(100)\<close>.
\<close>

definition bigPercent :: "int \<Rightarrow> int \<Rightarrow> int" where
  "bigPercent x p = (x * p) sdiv 100"

text \<open>
  A fee field of the provider's fee data is a BigInt or \<^verbatim>\<open>null\<close>. Multiplying
  \<^verbatim>\<open>null\<close> by a BigInt throws a TypeError, and so does reading a property of a
  \<^verbatim>\<open>null\<close> block.
\<close>

datatype js_error = TypeError

record fee_data =
  fd_gasPrice :: "int option"
  fd_maxFeePerGas :: "int option"
  fd_maxPriorityFeePerGas :: "int option"

record block =
  baseFeePerGas :: "int option"

text \<open>
  What the awaited provider calls of \<^verbatim>\<open>getOptimalGas\<close> resolve to: the fee data and
  the latest block. A call that rejects instead rejects the whole operation with the
  provider's own error; the model covers the runs in which the calls resolve.
\<close>

record provider_view =
  pv_feeData :: fee_data
  pv_block :: "block option"

record gas_tier =
  maxFeePerGas :: int
  maxPriorityFeePerGas :: int

record recommended_gas =
  slow :: gas_tier
  standard :: gas_tier
  fast :: gas_tier

record optimal_gas =
  og_gasPrice :: "int option"
  og_maxFeePerGas :: "int option"
  og_maxPriorityFeePerGas :: "int option"
  og_baseFeePerGas :: "int option"
  recommended :: recommended_gas

text \<open>
  \<^verbatim>\<open>BaseGasOptimizer.getOptimalGas\<close>. The object literal is evaluated in order: the
  block's base fee is read first, then the slow tier multiplies both fee fields, so the
  result exists only when the block and both fee fields are present.
\<close>

definition getOptimalGas :: "provider_view \<Rightarrow> js_error + optimal_gas" where
  "getOptimalGas pv =
     (let feeData = pv_feeData pv in
      case pv_block pv of
        None \<Rightarrow> Inl TypeError
      | Some blk \<Rightarrow>
         (case fd_maxFeePerGas feeData of
            None \<Rightarrow> Inl TypeError
          | Some fee \<Rightarrow>
             (case fd_maxPriorityFeePerGas feeData of
                None \<Rightarrow> Inl TypeError
              | Some prio \<Rightarrow>
                 Inr \<lparr> og_gasPrice = fd_gasPrice feeData,
                       og_maxFeePerGas = fd_maxFeePerGas feeData,
                       og_maxPriorityFeePerGas = fd_maxPriorityFeePerGas feeData,
                       og_baseFeePerGas = baseFeePerGas blk,
                       recommended =
                         \<lparr> slow = \<lparr> maxFeePerGas = bigPercent fee 90,
                                      maxPriorityFeePerGas = bigPercent prio 90 \<rparr>,
                           standard = \<lparr> maxFeePerGas = fee,
                                          maxPriorityFeePerGas = prio \<rparr>,
                           fast = \<lparr> maxFeePerGas = bigPercent fee 110,
                                      maxPriorityFeePerGas = bigPercent prio 110 \<rparr> \<rparr> \<rparr>)))"

text \<open>
  \<^verbatim>\<open>BaseDeFiUtils.getOptimalGasFees\<close>: the gas price read from the client is always
  a BigInt; the tiers are named standard, fast (10% higher) and instant (25% higher).
\<close>

record gas_fees =
  gf_standard :: int
  gf_fast :: int
  gf_instant :: int
  gf_network :: string

definition getOptimalGasFees :: "string \<Rightarrow> int \<Rightarrow> gas_fees" where
  "getOptimalGasFees configName gasPrice =
     \<lparr> gf_standard = gasPrice,
       gf_fast = bigPercent gasPrice 110,
       gf_instant = bigPercent gasPrice 125,
       gf_network = configName \<rparr>"

text \<open>A provider view in which the block and every fee field are present.\<close>

definition feeView :: "int \<Rightarrow> int \<Rightarrow> provider_view" where
  "feeView fee prio =
     \<lparr> pv_feeData = \<lparr> fd_gasPrice = Some fee, fd_maxFeePerGas = Some fee,
                        fd_maxPriorityFeePerGas = Some prio \<rparr>,
       pv_block = Some \<lparr> baseFeePerGas = Some fee \<rparr> \<rparr>"

section \<open>Activity score\<close>

text \<open>
  \<^verbatim>\<open>BaseIntegration\<close> keeps its deployed contracts in a Map from contract name to
  entry and its wallet in a field that is \<^verbatim>\<open>null\<close> until initialised. The Map is an
  association list in insertion order with one pair per key, so its \<^verbatim>\<open>size\<close> is the
  length of the list. The score is a JavaScript number; every value it takes here is an
  integer far below \<open>2 ^ 53\<close>, where number arithmetic is exact.
\<close>

record integration =
  contracts :: "(string \<times> string) list"
  wallet :: "string option"

definition map_size :: "('k \<times> 'v) list \<Rightarrow> int" where
  "map_size m = int (length m)"

definition calculateActivityScore :: "integration \<Rightarrow> int" where
  "calculateActivityScore this =
     (let score = 0;
          score = score + map_size (contracts this) * 50;
          score = (if wallet this \<noteq> None then score + 10 else score);
          score = score + 20
      in min score 1000)"

section \<open>JavaScript numbers\<close>

text \<open>
  A JavaScript number is an IEEE 754 binary64 value. A finite one is a rational, and
  every arithmetic operation and every conversion from a decimal numeral returns the
  exact result rounded to the nearest binary64 value, ties to the even significand.
  \<open>toDouble\<close> is that rounding: \<open>binade x\<close> is the exponent \<open>e\<close> with
  \<open>2 powi e \<le> \<bar>x\<bar> < 2 powi (e + 1)\<close>, not below the subnormal exponent \<open>- 1022\<close>,
  and the result is the multiple of \<open>2 powi (e - 52)\<close> nearest to \<open>x\<close>. Overflow to
  an infinity (from \<open>2 ^ 1024 - 2 ^ 970\<close> on) is left out: a balance of the chain is
  below \<open>2 ^ 256\<close> wei and a scaled random draw is below ten, and an order comparison
  with the infinity has the same outcome as with the large finite value computed here.
\<close>

definition roundHalfEven :: "rat \<Rightarrow> int" where
  "roundHalfEven q =
     (let n = \<lfloor>q\<rfloor>; d = q - of_int n
      in if d < 1 / 2 then n else if 1 / 2 < d then n + 1 else if even n then n else n + 1)"

definition binade :: "rat \<Rightarrow> int" where
  "binade x =
     (case quotient_of \<bar>x\<bar> of (a, b) \<Rightarrow>
        let e = bitlen a - bitlen b
        in max (- 1022) (if 2 powi e \<le> \<bar>x\<bar> then e else e - 1))"

definition toDouble :: "rat \<Rightarrow> rat" where
  "toDouble x = (let u = 2 powi (binade x - 52) in of_int (roundHalfEven (x / u)) * u)"

text \<open>Short of overflow, the binary64 values are the rationals that rounding leaves alone.\<close>

definition isDouble :: "rat \<Rightarrow> bool" where
  "isDouble x = (toDouble x = x)"

section \<open>Builder metrics and rewards eligibility\<close>

text \<open>
  \<^verbatim>\<open>formatEther\<close> writes a wei amount as the exact decimal numeral of its value in
  ether; the model keeps the rational that the numeral denotes. \<^verbatim>\<open>parseFloat\<close> reads
  such a numeral as the nearest number. (The language lets an engine round a numeral of
  more than 20 significant digits less exactly; such a balance is at least 100 ether in
  magnitude, and its comparison with \<^verbatim>\<open>0.01\<close> is the same.)
\<close>

definition formatEther :: "int \<Rightarrow> rat" where
  "formatEther wei = of_int wei / 10 ^ 18"

definition parseFloat :: "rat \<Rightarrow> rat" where
  "parseFloat s = toDouble s"

text \<open>
  What one run observes from outside: the balance in wei and the transaction count that
  the chain client resolves to, the draw of \<^verbatim>\<open>Math.random()\<close> (a number in
  \<open>[0, 1)\<close>) and the clock reading of \<^verbatim>\<open>new Date().toISOString()\<close>. The model
  covers the runs in which the awaited client calls resolve; a rejected call rejects the
  whole operation with the client's own error.
\<close>

record environment =
  env_balance :: int
  env_transactionCount :: int
  env_random :: rat
  env_now :: string

text \<open>
  \<^verbatim>\<open>BaseBuilderTracker.getContractsDeployed\<close>:
  \<^verbatim>\<open>Math.floor(Math.random() * 10) + 1\<close>. The address is not used.
\<close>

definition getContractsDeployed :: "rat \<Rightarrow> string \<Rightarrow> int" where
  "getContractsDeployed rnd address = \<lfloor>toDouble (rnd * 10)\<rfloor> + 1"

record builder_metrics =
  bm_address :: string
  bm_balance :: rat
  bm_transactionCount :: int
  bm_contractsDeployed :: int
  bm_network :: string
  bm_timestamp :: string

definition getBuilderMetrics :: "string \<Rightarrow> environment \<Rightarrow> string \<Rightarrow> builder_metrics" where
  "getBuilderMetrics configName env address =
     \<lparr> bm_address = address,
       bm_balance = formatEther (env_balance env),
       bm_transactionCount = env_transactionCount env,
       bm_contractsDeployed = getContractsDeployed (env_random env) address,
       bm_network = configName,
       bm_timestamp = env_now env \<rparr>"

record eligibility_flags =
  hasMinimumActivity :: bool
  hasDeployedContracts :: bool
  hasMinimumBalance :: bool
  overallEligible :: bool

text \<open>
  The \<^verbatim>\<open>eligibility\<close> object that \<^verbatim>\<open>checkRewardsEligibility\<close> builds from the
  metrics: the literal with \<^verbatim>\<open>overallEligible: false\<close> first, then the assignment of
  the conjunction. The literal \<^verbatim>\<open>0.01\<close> is the number nearest to \<open>1 / 100\<close>.
\<close>

definition eligibility :: "builder_metrics \<Rightarrow> eligibility_flags" where
  "eligibility metrics =
     (let e = \<lparr> hasMinimumActivity = (10 \<le> bm_transactionCount metrics),
                  hasDeployedContracts = (0 < bm_contractsDeployed metrics),
                  hasMinimumBalance = (toDouble (1 / 100) \<le> parseFloat (bm_balance metrics)),
                  overallEligible = False \<rparr>
      in e\<lparr> overallEligible :=
             hasMinimumActivity e \<and> hasDeployedContracts e \<and> hasMinimumBalance e \<rparr>)"

definition getRecommendations :: "eligibility_flags \<Rightarrow> string list" where
  "getRecommendations e =
     (let recommendations = [];
          recommendations =
            (if \<not> hasMinimumActivity e
             then recommendations @ [''Increase transaction activity on Base network'']
             else recommendations);
          recommendations =
            (if \<not> hasDeployedContracts e
             then recommendations @ [''Deploy smart contracts to demonstrate building activity'']
             else recommendations);
          recommendations =
            (if \<not> hasMinimumBalance e
             then recommendations @ [''Maintain minimum ETH balance for gas fees'']
             else recommendations);
          recommendations =
            (if overallEligible e
             then recommendations @ [''Continue consistent building activity for maximum rewards'']
             else recommendations)
      in recommendations)"

record rewards_report =
  rr_address :: string
  rr_eligibility :: eligibility_flags
  rr_metrics :: builder_metrics
  rr_recommendations :: "string list"

text \<open>
  \<^verbatim>\<open>BaseAnalytics.checkRewardsEligibility\<close>, which reads the metrics through its
  mainnet tracker, whose configured network name is \<^verbatim>\<open>Base\<close>.
\<close>

definition checkRewardsEligibility :: "environment \<Rightarrow> string \<Rightarrow> rewards_report" where
  "checkRewardsEligibility env address =
     (let metrics = getBuilderMetrics ''Base'' env address;
          e = eligibility metrics
      in \<lparr> rr_address = address,
            rr_eligibility = e,
            rr_metrics = metrics,
            rr_recommendations = getRecommendations e \<rparr>)"

section \<open>BigInt scaling\<close>

text \<open>On non-negative operands truncation toward zero is the floor.\<close>

lemma bigPercent_nonneg: "0 \<le> x \<Longrightarrow> 0 \<le> p \<Longrightarrow> bigPercent x p = (x * p) div 100"
  by (simp add: bigPercent_def signed_divide_int_def sgn_if)

lemma bigPercent_floor:
  assumes "0 \<le> x" and "0 \<le> p"
  shows "bigPercent x p = \<lfloor>(of_int x :: rat) * (of_int p / 100)\<rfloor>"
proof -
  have "\<lfloor>(of_int x :: rat) * (of_int p / 100)\<rfloor> = \<lfloor>(of_int (x * p) :: rat) / of_int 100\<rfloor>"
    by simp
  also have "\<dots> = (x * p) div 100"
    by (rule floor_divide_of_int_eq)
  finally show ?thesis
    using assms by (simp add: bigPercent_nonneg)
qed

lemma bigPercent_mono:
  assumes "0 \<le> x" and "0 \<le> p" and "p \<le> q"
  shows "bigPercent x p \<le> bigPercent x q"
proof -
  from assms have "x * p \<le> x * q" by (intro mult_left_mono)
  then have "(x * p) div 100 \<le> (x * q) div 100" by (rule zdiv_mono1) simp
  then show ?thesis using assms by (simp add: bigPercent_nonneg)
qed

lemma bigPercent_100: "bigPercent x 100 = x"
  by (simp add: bigPercent_def signed_divide_int_def abs_mult sgn_mult mult_sgn_abs)

lemma bigPercent_le: "0 \<le> x \<Longrightarrow> 0 \<le> p \<Longrightarrow> p \<le> 100 \<Longrightarrow> bigPercent x p \<le> x"
  using bigPercent_mono [of x p 100] by (simp add: bigPercent_100)

lemma bigPercent_ge: "0 \<le> x \<Longrightarrow> 100 \<le> p \<Longrightarrow> x \<le> bigPercent x p"
  using bigPercent_mono [of x 100 p] by (simp add: bigPercent_100)

text \<open>The result of \<open>getOptimalGas\<close> when nothing it reads is \<^verbatim>\<open>null\<close>.\<close>

lemma getOptimalGas_present:
  assumes "pv_block pv = Some blk"
    and "fd_maxFeePerGas (pv_feeData pv) = Some fee"
    and "fd_maxPriorityFeePerGas (pv_feeData pv) = Some prio"
  shows "getOptimalGas pv =
     Inr \<lparr> og_gasPrice = fd_gasPrice (pv_feeData pv),
           og_maxFeePerGas = Some fee,
           og_maxPriorityFeePerGas = Some prio,
           og_baseFeePerGas = baseFeePerGas blk,
           recommended =
             \<lparr> slow = \<lparr> maxFeePerGas = bigPercent fee 90,
                          maxPriorityFeePerGas = bigPercent prio 90 \<rparr>,
               standard = \<lparr> maxFeePerGas = fee, maxPriorityFeePerGas = prio \<rparr>,
               fast = \<lparr> maxFeePerGas = bigPercent fee 110,
                          maxPriorityFeePerGas = bigPercent prio 110 \<rparr> \<rparr> \<rparr>"
  using assms by (simp add: getOptimalGas_def Let_def)

section \<open>Rounding to binary64\<close>

lemma roundHalfEven_floor: "\<lfloor>q\<rfloor> \<le> roundHalfEven q \<and> roundHalfEven q \<le> \<lfloor>q\<rfloor> + 1"
  by (simp add: roundHalfEven_def Let_def)

lemma roundHalfEven_of_int: "roundHalfEven (of_int n) = n"
  by (simp add: roundHalfEven_def)

lemma roundHalfEven_mono:
  assumes "q \<le> q'"
  shows "roundHalfEven q \<le> roundHalfEven q'"
proof (cases "\<lfloor>q\<rfloor> = \<lfloor>q'\<rfloor>")
  case True
  with assms show ?thesis
    by (auto simp add: roundHalfEven_def Let_def)
next
  case False
  with assms have "\<lfloor>q\<rfloor> < \<lfloor>q'\<rfloor>"
    using floor_mono [of q q'] by linarith
  then have "roundHalfEven q \<le> \<lfloor>q'\<rfloor>"
    using roundHalfEven_floor [of q] by linarith
  then show ?thesis
    using roundHalfEven_floor [of q'] by linarith
qed

lemma bitlen_powi_bounds:
  assumes "0 < a"
  shows "2 powi (bitlen a - 1) \<le> (of_int a :: rat)" and "(of_int a :: rat) < 2 powi (bitlen a)"
proof -
  from assms have pos: "1 \<le> bitlen a"
    using bitlen_eq_zero_iff [of a] bitlen_nonneg [of a] by linarith
  from bitlen_bounds [OF assms]
  have lo: "2 ^ nat (bitlen a - 1) \<le> a" and hi: "a < 2 ^ nat (bitlen a)"
    by simp_all
  have "(of_int (2 ^ nat (bitlen a - 1)) :: rat) \<le> of_int a"
    using lo by (simp only: of_int_le_iff)
  then show "2 powi (bitlen a - 1) \<le> (of_int a :: rat)"
    using pos by (simp add: power_int_def)
  have "(of_int a :: rat) < of_int (2 ^ nat (bitlen a))"
    using hi by (simp only: of_int_less_iff)
  then show "(of_int a :: rat) < 2 powi (bitlen a)"
    using pos by (simp add: power_int_def)
qed

lemma powi2_mono: "m \<le> n \<Longrightarrow> (2::rat) powi m \<le> 2 powi n"
  by (rule power_int_increasing) simp_all

lemma powi2_less_imp: "(2::rat) powi m < 2 powi n \<Longrightarrow> m < n"
  using powi2_mono [of n m] by (cases "m < n") simp_all

lemma powi2_add: "(2::rat) powi m * 2 powi n = 2 powi (m + n)"
  by (simp add: power_int_add)

lemma powi2_diff: "(2::rat) powi m / 2 powi n = 2 powi (m - n)"
  by (simp add: power_int_diff)

lemma quotient_bounds:
  assumes "0 < x" and q: "quotient_of x = (a, b)"
  shows "2 powi (bitlen a - bitlen b - 1) < x" and "x < 2 powi (bitlen a - bitlen b + 1)"
proof -
  have b: "0 < b" using q by (rule quotient_of_denom_pos)
  have x: "x = of_int a / of_int b" using q by (rule quotient_of_div)
  have a: "0 < a"
    using assms(1) b unfolding x by (simp add: zero_less_divide_iff)
  note A = bitlen_powi_bounds [OF a] and B = bitlen_powi_bounds [OF b]
  have bpos: "(0::rat) < of_int b" using b by simp
  have "2 powi (bitlen a - bitlen b - 1) * of_int b < (2::rat) powi (bitlen a - bitlen b - 1) * 2 powi (bitlen b)"
    using B(2) by simp
  also have "\<dots> = 2 powi (bitlen a - 1)"
    by (simp only: powi2_add) simp
  also have "\<dots> \<le> of_int a" by (rule A(1))
  finally show "2 powi (bitlen a - bitlen b - 1) < x"
    unfolding x using bpos by (simp add: pos_less_divide_eq)
  have "(of_int a :: rat) < 2 powi (bitlen a)" by (rule A(2))
  also have "\<dots> = 2 powi (bitlen a - bitlen b + 1) * 2 powi (bitlen b - 1)"
    by (simp only: powi2_add) simp
  also have "\<dots> \<le> 2 powi (bitlen a - bitlen b + 1) * of_int b"
    using B(1) by simp
  finally show "x < 2 powi (bitlen a - bitlen b + 1)"
    unfolding x using bpos by (simp add: pos_divide_less_eq)
qed

lemma binade_upper:
  assumes "0 < x"
  shows "x < 2 powi (binade x + 1)"
proof -
  obtain a b where q: "quotient_of x = (a, b)" by (cases "quotient_of x")
  let ?e = "bitlen a - bitlen b"
  note Q = quotient_bounds [OF assms q]
  show ?thesis
  proof (cases "2 powi ?e \<le> x")
    case True
    then have "binade x = max (- 1022) ?e"
      using assms q by (simp add: binade_def Let_def)
    then have "?e + 1 \<le> binade x + 1" by simp
    then have "(2::rat) powi (?e + 1) \<le> 2 powi (binade x + 1)" by (rule powi2_mono)
    with Q(2) show ?thesis by simp
  next
    case False
    then have "binade x = max (- 1022) (?e - 1)"
      using assms q by (simp add: binade_def Let_def)
    then have "?e \<le> binade x + 1" by simp
    then have "(2::rat) powi ?e \<le> 2 powi (binade x + 1)" by (rule powi2_mono)
    with False show ?thesis by simp
  qed
qed

lemma binade_lower:
  assumes "0 < x" and "- 1022 < binade x"
  shows "2 powi (binade x) \<le> x"
proof -
  obtain a b where q: "quotient_of x = (a, b)" by (cases "quotient_of x")
  let ?e = "bitlen a - bitlen b"
  note Q = quotient_bounds [OF assms(1) q]
  show ?thesis
  proof (cases "2 powi ?e \<le> x")
    case True
    then have "binade x = max (- 1022) ?e"
      using assms q by (simp add: binade_def Let_def)
    with assms(2) have "binade x = ?e" by simp
    with True show ?thesis by simp
  next
    case False
    then have "binade x = max (- 1022) (?e - 1)"
      using assms q by (simp add: binade_def Let_def)
    with assms(2) have "binade x = ?e - 1" by simp
    with Q(1) show ?thesis by simp
  qed
qed

lemma binade_ge_min: "- 1022 \<le> binade x"
  by (simp add: binade_def Let_def split: prod.split)

lemma binade_ge:
  assumes "0 < x" and "2 powi k \<le> x" and "- 1022 \<le> k"
  shows "k \<le> binade x"
proof -
  have "(2::rat) powi k < 2 powi (binade x + 1)"
    using assms(2) binade_upper [OF assms(1)] by simp
  then have "k < binade x + 1" by (rule powi2_less_imp)
  then show ?thesis by simp
qed

lemma binade_le:
  assumes "0 < x" and "x < 2 powi (k + 1)" and "- 1022 \<le> k"
  shows "binade x \<le> k"
proof (cases "- 1022 < binade x")
  case True
  have "(2::rat) powi (binade x) < 2 powi (k + 1)"
    using binade_lower [OF assms(1) True] assms(2) by simp
  then have "binade x < k + 1" by (rule powi2_less_imp)
  then show ?thesis by simp
next
  case False
  with assms(3) show ?thesis by simp
qed

lemma powi2_53: "(2::rat) powi 53 * 2 powi (e - 52) = 2 powi (e + 1)"
proof -
  have "53 + (e - 52) = e + 1" by simp
  then show ?thesis by (simp only: powi2_add)
qed

lemma powi2_52: "(2::rat) powi 52 * 2 powi (e - 52) = 2 powi e"
proof -
  have "52 + (e - 52) = e" by simp
  then show ?thesis by (simp only: powi2_add)
qed

lemma toDouble_le_pow:
  assumes "0 < x"
  shows "toDouble x \<le> 2 powi (binade x + 1)"
proof -
  let ?u = "(2::rat) powi (binade x - 52)"
  have u: "0 < ?u" by simp
  have "x < 2 powi (binade x + 1)" using assms by (rule binade_upper)
  also have "\<dots> = 2 powi 53 * ?u" by (simp only: powi2_53)
  finally have "x / ?u < 2 powi 53" using u by (simp only: pos_divide_less_eq)
  then have "x / ?u \<le> of_int (2 ^ 53)" by simp
  then have "roundHalfEven (x / ?u) \<le> roundHalfEven (of_int (2 ^ 53))"
    by (rule roundHalfEven_mono)
  then have "roundHalfEven (x / ?u) \<le> 2 ^ 53"
    by (simp only: roundHalfEven_of_int)
  then have "(of_int (roundHalfEven (x / ?u)) :: rat) \<le> of_int (2 ^ 53)"
    by (simp only: of_int_le_iff)
  then have "of_int (roundHalfEven (x / ?u)) * ?u \<le> of_int (2 ^ 53) * ?u"
    using u by (simp only: mult_le_cancel_right_pos)
  also have "of_int (2 ^ 53) = (2::rat) powi 53" by simp
  also have "2 powi 53 * ?u = 2 powi (binade x + 1)" by (simp only: powi2_53)
  finally show ?thesis by (simp only: toDouble_def Let_def)
qed

lemma toDouble_ge_pow:
  assumes "0 < x" and "- 1022 < binade x"
  shows "2 powi (binade x) \<le> toDouble x"
proof -
  let ?u = "(2::rat) powi (binade x - 52)"
  have u: "0 < ?u" by simp
  have "2 powi 52 * ?u = 2 powi (binade x)" by (simp only: powi2_52)
  also have "\<dots> \<le> x" using assms by (rule binade_lower)
  finally have "2 powi 52 \<le> x / ?u" using u by (simp only: pos_le_divide_eq)
  then have "of_int (2 ^ 52) \<le> x / ?u" by simp
  then have "roundHalfEven (of_int (2 ^ 52)) \<le> roundHalfEven (x / ?u)"
    by (rule roundHalfEven_mono)
  then have "2 ^ 52 \<le> roundHalfEven (x / ?u)"
    by (simp only: roundHalfEven_of_int)
  then have "(of_int (2 ^ 52) :: rat) \<le> of_int (roundHalfEven (x / ?u))"
    by (simp only: of_int_le_iff)
  then have "of_int (2 ^ 52) * ?u \<le> of_int (roundHalfEven (x / ?u)) * ?u"
    using u by (simp only: mult_le_cancel_right_pos)
  moreover have "of_int (2 ^ 52) = (2::rat) powi 52" by simp
  ultimately have "2 powi 52 * ?u \<le> of_int (roundHalfEven (x / ?u)) * ?u" by simp
  then show ?thesis by (simp only: toDouble_def Let_def powi2_52)
qed

lemma toDouble_nonneg: "0 \<le> x \<Longrightarrow> 0 \<le> toDouble x"
proof -
  assume "0 \<le> x"
  then have "0 \<le> x / 2 powi (binade x - 52)" by simp
  then have "roundHalfEven (of_int 0) \<le> roundHalfEven (x / 2 powi (binade x - 52))"
    by (intro roundHalfEven_mono) simp
  then show ?thesis
    by (simp add: toDouble_def Let_def roundHalfEven_of_int del: of_int_0)
qed

lemma toDouble_nonpos: "x \<le> 0 \<Longrightarrow> toDouble x \<le> 0"
proof -
  assume "x \<le> 0"
  then have "x / 2 powi (binade x - 52) \<le> 0" by (simp add: divide_le_0_iff)
  then have "roundHalfEven (x / 2 powi (binade x - 52)) \<le> roundHalfEven (of_int 0)"
    by (intro roundHalfEven_mono) simp
  then show ?thesis
    by (simp add: toDouble_def Let_def roundHalfEven_of_int mult_le_0_iff del: of_int_0)
qed

lemma roundHalfEven_minus: "roundHalfEven (- q) = - roundHalfEven q"
proof (cases "q \<in> \<int>")
  case True
  then obtain n where "q = of_int n" by (auto elim: Ints_cases)
  then show ?thesis by (simp add: roundHalfEven_of_int flip: of_int_minus)
next
  case False
  then have f: "\<lfloor>- q\<rfloor> = - \<lfloor>q\<rfloor> - 1"
    by (simp add: floor_minus ceiling_altdef) (metis Ints_of_int)
  show ?thesis
    unfolding roundHalfEven_def Let_def f by auto
qed

lemma binade_minus: "binade (- x) = binade x"
  by (simp add: binade_def)

lemma toDouble_minus: "toDouble (- x) = - toDouble x"
  by (simp add: toDouble_def Let_def binade_minus roundHalfEven_minus)

text \<open>Within one binade rounding is monotone.\<close>

lemma toDouble_mono_binade:
  assumes "x \<le> y" and "binade x = binade y"
  shows "toDouble x \<le> toDouble y"
proof -
  let ?u = "(2::rat) powi (binade y - 52)"
  have u: "0 < ?u" by simp
  have "x / ?u \<le> y / ?u" using assms(1) u by (simp add: divide_right_mono)
  then have "roundHalfEven (x / ?u) \<le> roundHalfEven (y / ?u)" by (rule roundHalfEven_mono)
  then have "(of_int (roundHalfEven (x / ?u)) :: rat) \<le> of_int (roundHalfEven (y / ?u))"
    by (simp only: of_int_le_iff)
  then have "of_int (roundHalfEven (x / ?u)) * ?u \<le> of_int (roundHalfEven (y / ?u)) * ?u"
    using u by (simp only: mult_le_cancel_right_pos)
  then show ?thesis using assms(2) by (simp add: toDouble_def Let_def)
qed

text \<open>Rounding is monotone on the positive rationals.\<close>

lemma toDouble_mono_pos:
  assumes "0 < x" and "x \<le> y"
  shows "toDouble x \<le> toDouble y"
proof (cases "binade x = binade y")
  case True
  with assms(2) show ?thesis by (rule toDouble_mono_binade)
next
  case False
  have y: "0 < y" using assms by simp
  have "binade x \<le> binade y"
  proof (cases "- 1022 < binade x")
    case True
    have "2 powi (binade x) \<le> y" using binade_lower [OF assms(1) True] assms(2) by simp
    then show ?thesis using True by (intro binade_ge [OF y]) simp_all
  next
    case False
    then show ?thesis using binade_ge_min [of y] by simp
  qed
  with False have lt: "binade x + 1 \<le> binade y" by simp
  then have "- 1022 < binade y" using binade_ge_min [of x] by simp
  then have "2 powi (binade y) \<le> toDouble y" using y by (intro toDouble_ge_pow)
  moreover have "toDouble x \<le> 2 powi (binade x + 1)" using assms(1) by (rule toDouble_le_pow)
  moreover have "(2::rat) powi (binade x + 1) \<le> 2 powi (binade y)" using lt by (rule powi2_mono)
  ultimately show ?thesis by simp
qed

lemma toDouble_mono:
  assumes "x \<le> y"
  shows "toDouble x \<le> toDouble y"
proof (cases "0 < x")
  case True
  then show ?thesis using assms by (rule toDouble_mono_pos)
next
  case False
  then have x: "x \<le> 0" by simp
  show ?thesis
  proof (cases "0 \<le> y")
    case True
    then show ?thesis using toDouble_nonneg [of y] toDouble_nonpos [OF x] by simp
  next
    case False
    then have "0 < - y" and "- y \<le> - x" using assms by simp_all
    then have "toDouble (- y) \<le> toDouble (- x)" by (rule toDouble_mono_pos)
    then show ?thesis by (simp add: toDouble_minus)
  qed
qed

section \<open>The balance test and the random draw\<close>

text \<open>
  The number that the literal \<^verbatim>\<open>0.01\<close> denotes, the largest balance below a hundredth
  of an ether, and the largest random draw scaled by ten.
\<close>

lemma toDouble_hundredth: "toDouble (1 / 100) = 5764607523034235 / 2 ^ 59"
  by code_simp

lemma toDouble_below_hundredth: "toDouble ((10 ^ 16 - 1) / 10 ^ 18) < toDouble (1 / 100)"
  by code_simp

lemma toDouble_below_ten: "toDouble ((1 - 1 / 2 ^ 53) * 10) < 10"
  by code_simp

lemma formatEther_ge: "(1 / 100 \<le> formatEther wei) = (10 ^ 16 \<le> wei)"
proof -
  have "(1 / 100 \<le> formatEther wei) = ((of_int (10 ^ 16) :: rat) \<le> of_int wei)"
    by (simp add: formatEther_def pos_le_divide_eq)
  also have "\<dots> = (10 ^ 16 \<le> wei)"
    by (simp only: of_int_le_iff)
  finally show ?thesis .
qed

lemma minBalance_iff:
  "(toDouble (1 / 100) \<le> parseFloat (formatEther wei)) = (1 / 100 \<le> formatEther wei)"
proof (cases "10 ^ 16 \<le> wei")
  case True
  then have "1 / 100 \<le> formatEther wei" by (simp only: formatEther_ge)
  then show ?thesis
    using toDouble_mono [of "1 / 100" "formatEther wei"] by (simp add: parseFloat_def)
next
  case False
  then have "wei \<le> 10 ^ 16 - 1" by simp
  then have "(of_int wei :: rat) \<le> of_int (10 ^ 16 - 1)" by (simp only: of_int_le_iff)
  then have "formatEther wei \<le> (10 ^ 16 - 1) / 10 ^ 18"
    by (simp add: formatEther_def divide_right_mono)
  then have "toDouble (formatEther wei) \<le> toDouble ((10 ^ 16 - 1) / 10 ^ 18)"
    by (rule toDouble_mono)
  then have "\<not> toDouble (1 / 100) \<le> parseFloat (formatEther wei)"
    using toDouble_below_hundredth by (simp add: parseFloat_def)
  moreover have "\<not> 1 / 100 \<le> formatEther wei"
    using False by (simp only: formatEther_ge not_False_eq_True)
  ultimately show ?thesis by simp
qed

lemma random_draw_le:
  assumes "isDouble r" and "0 \<le> r" and "r < 1"
  shows "r \<le> 1 - 1 / 2 ^ 53"
proof (cases "r = 0")
  case True
  then show ?thesis by simp
next
  case False
  with assms(2) have pos: "0 < r" by simp
  have "binade r \<le> - 1"
    using pos assms(3) by (intro binade_le) simp_all
  then consider "binade r = - 1" | "binade r + 1 \<le> - 1" by linarith
  then show ?thesis
  proof cases
    case 1
    define n where "n = roundHalfEven (r / 2 powi (- 53))"
    have r: "r = of_int n / 2 ^ 53"
      using assms(1) 1 by (simp add: isDouble_def toDouble_def n_def power_int_minus_divide)
    with assms(3) have "(of_int n :: rat) < of_int (2 ^ 53)" by (simp add: pos_divide_less_eq)
    then have "n < 2 ^ 53" by (simp only: of_int_less_iff)
    then have "n \<le> 2 ^ 53 - 1" by simp
    then have "(of_int n :: rat) \<le> of_int (2 ^ 53 - 1)" by (simp only: of_int_le_iff)
    then have "of_int n / 2 ^ 53 \<le> (of_int (2 ^ 53 - 1) :: rat) / 2 ^ 53"
      by (simp only: divide_right_mono zero_le_numeral zero_le_power)
    then show ?thesis unfolding r [symmetric] by (simp add: diff_divide_distrib)
  next
    case 2
    have "r < 2 powi (binade r + 1)" using pos by (rule binade_upper)
    also have "\<dots> \<le> 2 powi (- 1)" using 2 by (rule powi2_mono)
    finally show ?thesis by (simp add: power_int_minus_divide)
  qed
qed

lemma scaled_draw_floor:
  assumes "isDouble r" and "0 \<le> r" and "r < 1"
  shows "0 \<le> \<lfloor>toDouble (r * 10)\<rfloor>" and "\<lfloor>toDouble (r * 10)\<rfloor> \<le> 9"
proof -
  have "0 \<le> toDouble (r * 10)" using assms(2) by (intro toDouble_nonneg) simp
  then show "0 \<le> \<lfloor>toDouble (r * 10)\<rfloor>" by simp
  have "r * 10 \<le> (1 - 1 / 2 ^ 53) * 10"
    using random_draw_le [OF assms] by simp
  then have "toDouble (r * 10) \<le> toDouble ((1 - 1 / 2 ^ 53) * 10)" by (rule toDouble_mono)
  then have "toDouble (r * 10) < 10" using toDouble_below_ten by simp
  then have "\<lfloor>toDouble (r * 10)\<rfloor> < 10" by (simp add: floor_less_iff)
  then show "\<lfloor>toDouble (r * 10)\<rfloor> \<le> 9" by simp
qed

section \<open>Properties of the activity score\<close>

text \<open>
  C2. For every state of the integration object, with \<open>deployedContractCount\<close> the size
  of its contracts Map and \<open>walletInitialized\<close> the presence of its wallet, the activity
  score equals \<open>min(1000, deployedContractCount * 50 + (walletInitialized ? 10 : 0) + 20)\<close>,
  and it lies in \<open>[0, 1000]\<close>.
\<close>

theorem activityScore_formula:
  "calculateActivityScore this =
     min 1000 (map_size (contracts this) * 50 + (if wallet this \<noteq> None then 10 else 0) + 20)
   \<and> 0 \<le> calculateActivityScore this \<and> calculateActivityScore this \<le> 1000"
  by (auto simp add: calculateActivityScore_def Let_def map_size_def min_def)

text \<open>
  C4. With at least 20 deployed contracts and an initialised wallet the activity score is
  exactly 1000: the score saturates at its cap.
\<close>

theorem activityScore_saturates:
  assumes "20 \<le> map_size (contracts this)" and "wallet this \<noteq> None"
  shows "calculateActivityScore this = 1000"
  using assms by (simp add: calculateActivityScore_def Let_def)

theorem activityScore_saturates_witness:
  "calculateActivityScore
     \<lparr> contracts = map (\<lambda>n. (n, ''0x4200000000000000000000000000000000000010''))
         [''c01'', ''c02'', ''c03'', ''c04'', ''c05'', ''c06'', ''c07'', ''c08'', ''c09'', ''c10'',
          ''c11'', ''c12'', ''c13'', ''c14'', ''c15'', ''c16'', ''c17'', ''c18'', ''c19'', ''c20''],
       wallet = Some ''0x742d35Cc6634C0532925a3b8D'' \<rparr> = 1000"
  by (rule activityScore_saturates) (simp_all add: map_size_def)

text \<open>
  C10. Whatever the number of deployed contracts, and whether or not the wallet is
  initialised, the activity score is at least 20: the base of 20 is added unconditionally.
\<close>

theorem activityScore_ge_20: "20 \<le> calculateActivityScore this"
  by (simp add: calculateActivityScore_def Let_def map_size_def)

section \<open>Properties of the fee tiers\<close>

text \<open>
  C1, as stated, fails: an observation with a non-negative fee whose priority fee is absent
  (\<^verbatim>\<open>null\<close>) gets no schedule. The slow tier multiplies the priority fee, and
  \<open>getOptimalGas\<close> throws a TypeError.
\<close>

theorem absent_priority_fee_counterexample:
  "getOptimalGas
     \<lparr> pv_feeData = \<lparr> fd_gasPrice = Some 1000000000, fd_maxFeePerGas = Some 1000000000,
                        fd_maxPriorityFeePerGas = None \<rparr>,
       pv_block = Some \<lparr> baseFeePerGas = Some 1000000000 \<rparr> \<rparr> = Inl TypeError"
  by (simp add: getOptimalGas_def)

text \<open>
  C1, amended. For every observation in which the latest block, the fee and the priority
  fee are all present (not \<^verbatim>\<open>null\<close>) and the fee and the priority fee are
  non-negative, \<open>getOptimalGas\<close> returns a schedule whose tiers are non-decreasing,
  slow \<open>\<le>\<close> standard \<open>\<le>\<close> fast, for the fee caps and for the priority caps alike. For
  every non-negative gas price \<open>getOptimalGasFees\<close> returns standard \<open>\<le>\<close> fast
  \<open>\<le>\<close> instant. The source has no multiplier parameter: its upper tiers are the fixed
  110% and 125%; for every non-negative value, the 90% of its scaling expression is not
  above the value and any percentage of at least 100 is not below it.
\<close>

theorem fee_tiers_monotone:
  "(pv_block pv = Some blk
      \<and> fd_maxFeePerGas (pv_feeData pv) = Some fee
      \<and> fd_maxPriorityFeePerGas (pv_feeData pv) = Some prio
      \<and> 0 \<le> fee \<and> 0 \<le> prio
    \<longrightarrow> (\<exists>r. getOptimalGas pv = Inr r
      \<and> maxFeePerGas (slow (recommended r)) \<le> maxFeePerGas (standard (recommended r))
      \<and> maxFeePerGas (standard (recommended r)) \<le> maxFeePerGas (fast (recommended r))
      \<and> maxPriorityFeePerGas (slow (recommended r))
          \<le> maxPriorityFeePerGas (standard (recommended r))
      \<and> maxPriorityFeePerGas (standard (recommended r))
          \<le> maxPriorityFeePerGas (fast (recommended r))))
   \<and> (0 \<le> gasPrice
    \<longrightarrow> gf_standard (getOptimalGasFees name gasPrice)
          \<le> gf_fast (getOptimalGasFees name gasPrice)
      \<and> gf_fast (getOptimalGasFees name gasPrice)
          \<le> gf_instant (getOptimalGasFees name gasPrice))
   \<and> (0 \<le> x \<and> 100 \<le> p \<longrightarrow> bigPercent x 90 \<le> x \<and> x \<le> bigPercent x p)"
proof -
  have gas: "\<exists>r. getOptimalGas pv = Inr r
      \<and> maxFeePerGas (slow (recommended r)) \<le> maxFeePerGas (standard (recommended r))
      \<and> maxFeePerGas (standard (recommended r)) \<le> maxFeePerGas (fast (recommended r))
      \<and> maxPriorityFeePerGas (slow (recommended r))
          \<le> maxPriorityFeePerGas (standard (recommended r))
      \<and> maxPriorityFeePerGas (standard (recommended r))
          \<le> maxPriorityFeePerGas (fast (recommended r))"
    if "pv_block pv = Some blk"
      and "fd_maxFeePerGas (pv_feeData pv) = Some fee"
      and "fd_maxPriorityFeePerGas (pv_feeData pv) = Some prio"
      and "0 \<le> fee" and "0 \<le> prio"
    using that(4,5)
    by (simp add: getOptimalGas_present [OF that(1,2,3)] bigPercent_le bigPercent_ge)
  have fees: "gf_standard (getOptimalGasFees name gasPrice)
          \<le> gf_fast (getOptimalGasFees name gasPrice)
      \<and> gf_fast (getOptimalGasFees name gasPrice)
          \<le> gf_instant (getOptimalGasFees name gasPrice)"
    if "0 \<le> gasPrice"
    using that by (simp add: getOptimalGasFees_def bigPercent_ge bigPercent_mono)
  have pct: "bigPercent x 90 \<le> x \<and> x \<le> bigPercent x p" if "0 \<le> x" and "100 \<le> p"
    using that by (simp add: bigPercent_le bigPercent_ge)
  show ?thesis
    using gas fees pct by blast
qed

theorem fee_tiers_monotone_witness:
  "(\<exists>r. getOptimalGas (feeView 1000000000 7) = Inr r
      \<and> maxFeePerGas (slow (recommended r)) \<le> maxFeePerGas (standard (recommended r))
      \<and> maxFeePerGas (standard (recommended r)) \<le> maxFeePerGas (fast (recommended r))
      \<and> maxPriorityFeePerGas (slow (recommended r))
          \<le> maxPriorityFeePerGas (standard (recommended r))
      \<and> maxPriorityFeePerGas (standard (recommended r))
          \<le> maxPriorityFeePerGas (fast (recommended r)))
   \<and> gf_standard (getOptimalGasFees ''Base'' 1000000000)
       \<le> gf_fast (getOptimalGasFees ''Base'' 1000000000)
   \<and> gf_fast (getOptimalGasFees ''Base'' 1000000000)
       \<le> gf_instant (getOptimalGasFees ''Base'' 1000000000)
   \<and> bigPercent 7 90 \<le> 7 \<and> 7 \<le> bigPercent 7 125"
  using fee_tiers_monotone [of "feeView 1000000000 7" "\<lparr> baseFeePerGas = Some 1000000000 \<rparr>"
      1000000000 7 1000000000 "''Base''" 7 125]
  by (simp add: feeView_def)

text \<open>
  C7, as stated, fails: at the fee 1_000_000_000 the fast tier is not 1_250_000_000, in
  \<open>getOptimalGas\<close> and in \<open>getOptimalGasFees\<close> alike.
\<close>

theorem fast_tier_1gwei_counterexample:
  "\<not> isl (getOptimalGas (feeView 1000000000 0))
   \<and> maxFeePerGas (fast (recommended (projr (getOptimalGas (feeView 1000000000 0)))))
       \<noteq> 1250000000
   \<and> gf_fast (getOptimalGasFees ''Base'' 1000000000) \<noteq> 1250000000"
  by (simp add: getOptimalGas_def getOptimalGasFees_def feeView_def bigPercent_def
      signed_divide_int_def)

text \<open>
  C7, amended. At the fee 1_000_000_000, with the latest block and a priority fee present
  (not \<^verbatim>\<open>null\<close>), \<open>getOptimalGas\<close> returns slow = 900_000_000,
  standard = 1_000_000_000 and fast = 1_100_000_000: its fast tier is 110% of the fee. At
  the gas price 1_000_000_000 \<open>getOptimalGasFees\<close> returns standard = 1_000_000_000,
  fast = 1_100_000_000 and instant = 1_250_000_000: the value 1_250_000_000 is its instant
  tier.
\<close>

theorem fee_tiers_1gwei:
  "(pv_block pv = Some blk
      \<and> fd_maxFeePerGas (pv_feeData pv) = Some 1000000000
      \<and> fd_maxPriorityFeePerGas (pv_feeData pv) = Some prio
    \<longrightarrow> (\<exists>r. getOptimalGas pv = Inr r
      \<and> maxFeePerGas (slow (recommended r)) = 900000000
      \<and> maxFeePerGas (standard (recommended r)) = 1000000000
      \<and> maxFeePerGas (fast (recommended r)) = 1100000000))
   \<and> getOptimalGasFees name 1000000000 =
       \<lparr> gf_standard = 1000000000, gf_fast = 1100000000, gf_instant = 1250000000,
         gf_network = name \<rparr>"
proof -
  have gas: "\<exists>r. getOptimalGas pv = Inr r
      \<and> maxFeePerGas (slow (recommended r)) = 900000000
      \<and> maxFeePerGas (standard (recommended r)) = 1000000000
      \<and> maxFeePerGas (fast (recommended r)) = 1100000000"
    if "pv_block pv = Some blk"
      and "fd_maxFeePerGas (pv_feeData pv) = Some 1000000000"
      and "fd_maxPriorityFeePerGas (pv_feeData pv) = Some prio"
    by (simp add: getOptimalGas_present [OF that] bigPercent_def signed_divide_int_def)
  have fees: "getOptimalGasFees name 1000000000 =
       \<lparr> gf_standard = 1000000000, gf_fast = 1100000000, gf_instant = 1250000000,
         gf_network = name \<rparr>"
    by (simp add: getOptimalGasFees_def bigPercent_def signed_divide_int_def)
  show ?thesis
    using gas fees by blast
qed

theorem fee_tiers_1gwei_witness:
  "(\<exists>r. getOptimalGas (feeView 1000000000 0) = Inr r
      \<and> maxFeePerGas (slow (recommended r)) = 900000000
      \<and> maxFeePerGas (standard (recommended r)) = 1000000000
      \<and> maxFeePerGas (fast (recommended r)) = 1100000000)
   \<and> getOptimalGasFees ''Base'' 1000000000 =
       \<lparr> gf_standard = 1000000000, gf_fast = 1100000000, gf_instant = 1250000000,
         gf_network = ''Base'' \<rparr>"
  using fee_tiers_1gwei [of "feeView 1000000000 0" "\<lparr> baseFeePerGas = Some 1000000000 \<rparr>" 0
      "''Base''"]
  by (simp add: feeView_def)

text \<open>
  C8. For every non-negative fee and priority fee the tiers are computed in exact integer
  arithmetic and truncated: slow is the floor of 0.90 times the observed value and fast the
  floor of the multiplier times the observed value, for the fee and for the priority fee
  alike, so that no tier exceeds the exact product. The multiplier of the fast tier is the
  source's 1.10; the instant tier of \<open>getOptimalGasFees\<close> is the floor at 1.25.
\<close>

theorem fee_tiers_floor:
  assumes "pv_block pv = Some blk"
    and "fd_maxFeePerGas (pv_feeData pv) = Some fee"
    and "fd_maxPriorityFeePerGas (pv_feeData pv) = Some prio"
    and "0 \<le> fee" and "0 \<le> prio"
  shows "\<exists>r. getOptimalGas pv = Inr r
      \<and> maxFeePerGas (slow (recommended r)) = \<lfloor>(of_int fee :: rat) * (90 / 100)\<rfloor>
      \<and> maxFeePerGas (standard (recommended r)) = fee
      \<and> maxFeePerGas (fast (recommended r)) = \<lfloor>(of_int fee :: rat) * (110 / 100)\<rfloor>
      \<and> maxPriorityFeePerGas (slow (recommended r)) = \<lfloor>(of_int prio :: rat) * (90 / 100)\<rfloor>
      \<and> maxPriorityFeePerGas (standard (recommended r)) = prio
      \<and> maxPriorityFeePerGas (fast (recommended r)) = \<lfloor>(of_int prio :: rat) * (110 / 100)\<rfloor>
      \<and> (of_int (maxFeePerGas (slow (recommended r))) :: rat) \<le> of_int fee * (90 / 100)
      \<and> (of_int (maxFeePerGas (fast (recommended r))) :: rat) \<le> of_int fee * (110 / 100)
      \<and> (of_int (maxPriorityFeePerGas (slow (recommended r))) :: rat) \<le> of_int prio * (90 / 100)
      \<and> (of_int (maxPriorityFeePerGas (fast (recommended r))) :: rat) \<le> of_int prio * (110 / 100)
      \<and> gf_fast (getOptimalGasFees name fee) = \<lfloor>(of_int fee :: rat) * (110 / 100)\<rfloor>
      \<and> gf_instant (getOptimalGasFees name fee) = \<lfloor>(of_int fee :: rat) * (125 / 100)\<rfloor>"
proof -
  have fee: "bigPercent fee 90 = \<lfloor>(of_int fee :: rat) * (90 / 100)\<rfloor>"
    "bigPercent fee 110 = \<lfloor>(of_int fee :: rat) * (110 / 100)\<rfloor>"
    "bigPercent fee 125 = \<lfloor>(of_int fee :: rat) * (125 / 100)\<rfloor>"
    using bigPercent_floor [of fee 90] bigPercent_floor [of fee 110]
      bigPercent_floor [of fee 125] assms(4) by simp_all
  have prio: "bigPercent prio 90 = \<lfloor>(of_int prio :: rat) * (90 / 100)\<rfloor>"
    "bigPercent prio 110 = \<lfloor>(of_int prio :: rat) * (110 / 100)\<rfloor>"
    using bigPercent_floor [of prio 90] bigPercent_floor [of prio 110] assms(5) by simp_all
  show ?thesis
    unfolding getOptimalGas_present [OF assms(1,2,3)] getOptimalGasFees_def
    by (rule exI, rule conjI, rule refl)
      (simp only: optimal_gas.simps recommended_gas.simps gas_tier.simps gas_fees.simps
        fee prio of_int_floor_le simp_thms)
qed

theorem fee_tiers_floor_witness:
  "\<exists>r. getOptimalGas (feeView 1999 7) = Inr r
      \<and> maxFeePerGas (slow (recommended r)) = \<lfloor>(of_int 1999 :: rat) * (90 / 100)\<rfloor>
      \<and> maxFeePerGas (standard (recommended r)) = 1999
      \<and> maxFeePerGas (fast (recommended r)) = \<lfloor>(of_int 1999 :: rat) * (110 / 100)\<rfloor>
      \<and> maxPriorityFeePerGas (slow (recommended r)) = \<lfloor>(of_int 7 :: rat) * (90 / 100)\<rfloor>
      \<and> maxPriorityFeePerGas (standard (recommended r)) = 7
      \<and> maxPriorityFeePerGas (fast (recommended r)) = \<lfloor>(of_int 7 :: rat) * (110 / 100)\<rfloor>
      \<and> (of_int (maxFeePerGas (slow (recommended r))) :: rat) \<le> of_int 1999 * (90 / 100)
      \<and> (of_int (maxFeePerGas (fast (recommended r))) :: rat) \<le> of_int 1999 * (110 / 100)
      \<and> (of_int (maxPriorityFeePerGas (slow (recommended r))) :: rat) \<le> of_int 7 * (90 / 100)
      \<and> (of_int (maxPriorityFeePerGas (fast (recommended r))) :: rat) \<le> of_int 7 * (110 / 100)
      \<and> gf_fast (getOptimalGasFees ''Base'' 1999) = \<lfloor>(of_int 1999 :: rat) * (110 / 100)\<rfloor>
      \<and> gf_instant (getOptimalGasFees ''Base'' 1999) = \<lfloor>(of_int 1999 :: rat) * (125 / 100)\<rfloor>"
  using fee_tiers_floor [of "feeView 1999 7" "\<lparr> baseFeePerGas = Some 1999 \<rparr>" 1999 7 "''Base''"]
  by (simp add: feeView_def)

section \<open>Properties of the rewards eligibility check\<close>

text \<open>
  C3. For every snapshot the eligibility check returns
  \<open>hasMinimumActivity = (transactionCount \<ge> 10)\<close>,
  \<open>hasDeployedContracts = (deployedContractCount \<ge> 1)\<close>,
  \<open>hasMinimumBalance = (balance \<ge> 0.01)\<close>, balance and threshold both in ether, and
  \<open>overallEligible\<close> equal to the conjunction of the three. The thresholds are the
  constants of the source; the balance is a wei amount formatted in ether, as
  \<open>getBuilderMetrics\<close> produces it, and the comparison of the rounded numbers agrees
  with the comparison of the exact values in ether, and with that of the wei amount
  against \<open>10 ^ 16\<close> wei.
\<close>

theorem eligibility_predicates:
  assumes "bm_balance metrics = formatEther wei"
  shows "hasMinimumActivity (eligibility metrics) = (10 \<le> bm_transactionCount metrics)
    \<and> hasDeployedContracts (eligibility metrics) = (1 \<le> bm_contractsDeployed metrics)
    \<and> hasMinimumBalance (eligibility metrics) = (1 / 100 \<le> bm_balance metrics)
    \<and> hasMinimumBalance (eligibility metrics) = (10 ^ 16 \<le> wei)
    \<and> overallEligible (eligibility metrics) =
        (hasMinimumActivity (eligibility metrics)
         \<and> hasDeployedContracts (eligibility metrics)
         \<and> hasMinimumBalance (eligibility metrics))
    \<and> rr_eligibility (checkRewardsEligibility env address) =
        eligibility (getBuilderMetrics ''Base'' env address)"
  using minBalance_iff [of wei] formatEther_ge [of wei] assms
  by (auto simp add: eligibility_def checkRewardsEligibility_def Let_def)

theorem eligibility_predicates_witness:
  "hasMinimumActivity (eligibility (getBuilderMetrics ''Base''
       \<lparr> env_balance = 10000000000000000, env_transactionCount = 10, env_random = 0,
         env_now = ''2024-01-01T00:00:00.000Z'' \<rparr> ''0x742d35Cc6634C0532925a3b8D''))
   \<and> hasDeployedContracts (eligibility (getBuilderMetrics ''Base''
       \<lparr> env_balance = 10000000000000000, env_transactionCount = 10, env_random = 0,
         env_now = ''2024-01-01T00:00:00.000Z'' \<rparr> ''0x742d35Cc6634C0532925a3b8D''))
   \<and> hasMinimumBalance (eligibility (getBuilderMetrics ''Base''
       \<lparr> env_balance = 10000000000000000, env_transactionCount = 10, env_random = 0,
         env_now = ''2024-01-01T00:00:00.000Z'' \<rparr> ''0x742d35Cc6634C0532925a3b8D''))
   \<and> overallEligible (eligibility (getBuilderMetrics ''Base''
       \<lparr> env_balance = 10000000000000000, env_transactionCount = 10, env_random = 0,
         env_now = ''2024-01-01T00:00:00.000Z'' \<rparr> ''0x742d35Cc6634C0532925a3b8D''))"
proof -
  have d: "getContractsDeployed 0 ''0x742d35Cc6634C0532925a3b8D'' = 1" by code_simp
  show ?thesis
    using eligibility_predicates [of "getBuilderMetrics ''Base''
       \<lparr> env_balance = 10000000000000000, env_transactionCount = 10, env_random = 0,
         env_now = ''2024-01-01T00:00:00.000Z'' \<rparr> ''0x742d35Cc6634C0532925a3b8D''"
       10000000000000000]
    by (simp add: getBuilderMetrics_def formatEther_def d)
qed

text \<open>
  C9. For every address and every draw of \<^verbatim>\<open>Math.random()\<close>, a number in \<open>[0, 1)\<close>,
  \<open>getContractsDeployed\<close> returns an integer in \<open>[1, 10]\<close>; consequently the
  \<open>hasDeployedContracts\<close> predicate of the eligibility check is true for every address.
\<close>

theorem contractsDeployed_range:
  assumes "isDouble (env_random env)" and "0 \<le> env_random env" and "env_random env < 1"
  shows "1 \<le> getContractsDeployed (env_random env) address
    \<and> getContractsDeployed (env_random env) address \<le> 10
    \<and> hasDeployedContracts (rr_eligibility (checkRewardsEligibility env address))"
  using scaled_draw_floor [OF assms]
  by (simp add: getContractsDeployed_def checkRewardsEligibility_def getBuilderMetrics_def
      eligibility_def Let_def)

theorem contractsDeployed_range_witness:
  "1 \<le> getContractsDeployed (1 / 2) ''0x742d35Cc6634C0532925a3b8D''
    \<and> getContractsDeployed (1 / 2) ''0x742d35Cc6634C0532925a3b8D'' \<le> 10
    \<and> hasDeployedContracts (rr_eligibility (checkRewardsEligibility
         \<lparr> env_balance = 0, env_transactionCount = 0, env_random = 1 / 2,
           env_now = ''2024-01-01T00:00:00.000Z'' \<rparr> ''0x742d35Cc6634C0532925a3b8D''))"
proof -
  have d: "isDouble (1 / 2)" by code_simp
  show ?thesis
    using contractsDeployed_range [of "\<lparr> env_balance = 0, env_transactionCount = 0,
       env_random = 1 / 2, env_now = ''2024-01-01T00:00:00.000Z'' \<rparr>"
       "''0x742d35Cc6634C0532925a3b8D''"] d
    by simp
qed

section \<open>Input validation and determinism\<close>

text \<open>
  C5, as stated, fails: on a negative fee \<open>getOptimalGas\<close> raises no error and returns
  a schedule, and on negative metrics the eligibility check returns its flags.
\<close>

theorem negative_input_counterexample:
  "getOptimalGas (feeView (- 100) 0) =
     Inr \<lparr> og_gasPrice = Some (- 100),
           og_maxFeePerGas = Some (- 100),
           og_maxPriorityFeePerGas = Some 0,
           og_baseFeePerGas = Some (- 100),
           recommended =
             \<lparr> slow = \<lparr> maxFeePerGas = - 90, maxPriorityFeePerGas = 0 \<rparr>,
               standard = \<lparr> maxFeePerGas = - 100, maxPriorityFeePerGas = 0 \<rparr>,
               fast = \<lparr> maxFeePerGas = - 110, maxPriorityFeePerGas = 0 \<rparr> \<rparr> \<rparr>
   \<and> eligibility
       \<lparr> bm_address = ''0x742d35Cc6634C0532925a3b8D'', bm_balance = - 1,
         bm_transactionCount = - 1, bm_contractsDeployed = - 1, bm_network = ''Base'',
         bm_timestamp = ''2024-01-01T00:00:00.000Z'' \<rparr> =
     \<lparr> hasMinimumActivity = False, hasDeployedContracts = False,
       hasMinimumBalance = False, overallEligible = False \<rparr>"
proof -
  have "\<not> toDouble (1 / 100) \<le> toDouble (- 1)" by code_simp
  then show ?thesis
    by (simp add: getOptimalGas_def feeView_def bigPercent_def signed_divide_int_def
        eligibility_def parseFloat_def)
qed

text \<open>
  C5, amended. Neither operation validates its input. \<open>getOptimalGas\<close> fails exactly when
  the block or one of the two fee fields it multiplies is \<^verbatim>\<open>null\<close>, and then with a
  TypeError; for every fee and priority fee that are present, negative ones included, it
  returns a schedule. The eligibility check raises no error of its own: a negative
  transaction count, contract count or balance makes the corresponding predicate false,
  and \<open>overallEligible\<close> with it.
\<close>

theorem no_input_validation:
  "isl (getOptimalGas pv) =
     (pv_block pv = None \<or> fd_maxFeePerGas (pv_feeData pv) = None
      \<or> fd_maxPriorityFeePerGas (pv_feeData pv) = None)
   \<and> (getOptimalGas pv = Inl e \<longrightarrow> e = TypeError)
   \<and> (fee < 0 \<longrightarrow>
        (\<exists>r. getOptimalGas (feeView fee prio) = Inr r
           \<and> maxFeePerGas (standard (recommended r)) = fee))
   \<and> (bm_transactionCount m < 0 \<longrightarrow> \<not> hasMinimumActivity (eligibility m))
   \<and> (bm_contractsDeployed m < 0 \<longrightarrow> \<not> hasDeployedContracts (eligibility m))
   \<and> (bm_balance m < 0 \<longrightarrow> \<not> hasMinimumBalance (eligibility m))
   \<and> (bm_transactionCount m < 0 \<or> bm_contractsDeployed m < 0 \<or> bm_balance m < 0
        \<longrightarrow> \<not> overallEligible (eligibility m))"
proof -
  have fails: "isl (getOptimalGas pv) =
     (pv_block pv = None \<or> fd_maxFeePerGas (pv_feeData pv) = None
      \<or> fd_maxPriorityFeePerGas (pv_feeData pv) = None)"
    by (simp add: getOptimalGas_def Let_def split: option.split)
  have kind: "getOptimalGas pv = Inl e \<longrightarrow> e = TypeError"
    by (cases e) simp
  have neg: "\<exists>r. getOptimalGas (feeView fee prio) = Inr r
           \<and> maxFeePerGas (standard (recommended r)) = fee"
    by (simp add: getOptimalGas_def feeView_def)
  have bal: "\<not> hasMinimumBalance (eligibility m)" if "bm_balance m < 0"
  proof -
    from that have "toDouble (bm_balance m) \<le> 0" by (intro toDouble_nonpos) simp
    moreover have "0 < toDouble (1 / 100)" by (simp add: toDouble_hundredth)
    ultimately show ?thesis by (simp add: eligibility_def parseFloat_def)
  qed
  have tx: "\<not> hasMinimumActivity (eligibility m)" if "bm_transactionCount m < 0"
    using that by (simp add: eligibility_def)
  have dep: "\<not> hasDeployedContracts (eligibility m)" if "bm_contractsDeployed m < 0"
    using that by (simp add: eligibility_def)
  have all: "overallEligible (eligibility m) =
      (hasMinimumActivity (eligibility m) \<and> hasDeployedContracts (eligibility m)
       \<and> hasMinimumBalance (eligibility m))"
    by (simp add: eligibility_def)
  show ?thesis
    using fails kind neg bal tx dep unfolding all by blast
qed

theorem no_input_validation_witness:
  "\<not> isl (getOptimalGas (feeView (- 100) (- 7)))
   \<and> (\<exists>r. getOptimalGas (feeView (- 100) (- 7)) = Inr r
         \<and> maxFeePerGas (standard (recommended r)) = - 100)
   \<and> \<not> hasMinimumActivity (eligibility
       \<lparr> bm_address = ''0x742d35Cc6634C0532925a3b8D'', bm_balance = - 1,
         bm_transactionCount = - 1, bm_contractsDeployed = - 1, bm_network = ''Base'',
         bm_timestamp = ''2024-01-01T00:00:00.000Z'' \<rparr>)
   \<and> \<not> hasDeployedContracts (eligibility
       \<lparr> bm_address = ''0x742d35Cc6634C0532925a3b8D'', bm_balance = - 1,
         bm_transactionCount = - 1, bm_contractsDeployed = - 1, bm_network = ''Base'',
         bm_timestamp = ''2024-01-01T00:00:00.000Z'' \<rparr>)
   \<and> \<not> hasMinimumBalance (eligibility
       \<lparr> bm_address = ''0x742d35Cc6634C0532925a3b8D'', bm_balance = - 1,
         bm_transactionCount = - 1, bm_contractsDeployed = - 1, bm_network = ''Base'',
         bm_timestamp = ''2024-01-01T00:00:00.000Z'' \<rparr>)
   \<and> \<not> overallEligible (eligibility
       \<lparr> bm_address = ''0x742d35Cc6634C0532925a3b8D'', bm_balance = - 1,
         bm_transactionCount = - 1, bm_contractsDeployed = - 1, bm_network = ''Base'',
         bm_timestamp = ''2024-01-01T00:00:00.000Z'' \<rparr>)"
  using no_input_validation [of "feeView (- 100) (- 7)" TypeError "- 100" "- 7"
      "\<lparr> bm_address = ''0x742d35Cc6634C0532925a3b8D'', bm_balance = - 1,
         bm_transactionCount = - 1, bm_contractsDeployed = - 1, bm_network = ''Base'',
         bm_timestamp = ''2024-01-01T00:00:00.000Z'' \<rparr>"]
  by (simp add: feeView_def)

text \<open>
  C6, as stated, fails: two runs of the eligibility check on the same address, with the
  same balance and transaction count read from the chain, return different reports when
  \<^verbatim>\<open>Math.random()\<close> draws differently.
\<close>

theorem same_address_counterexample:
  "bm_contractsDeployed (rr_metrics (checkRewardsEligibility
       \<lparr> env_balance = 20000000000000000, env_transactionCount = 12, env_random = 0,
         env_now = ''2024-01-01T00:00:00.000Z'' \<rparr> ''0x742d35Cc6634C0532925a3b8D'')) = 1
   \<and> bm_contractsDeployed (rr_metrics (checkRewardsEligibility
       \<lparr> env_balance = 20000000000000000, env_transactionCount = 12, env_random = 1 / 2,
         env_now = ''2024-01-01T00:00:00.000Z'' \<rparr> ''0x742d35Cc6634C0532925a3b8D'')) = 6
   \<and> checkRewardsEligibility
       \<lparr> env_balance = 20000000000000000, env_transactionCount = 12, env_random = 0,
         env_now = ''2024-01-01T00:00:00.000Z'' \<rparr> ''0x742d35Cc6634C0532925a3b8D''
     \<noteq> checkRewardsEligibility
       \<lparr> env_balance = 20000000000000000, env_transactionCount = 12, env_random = 1 / 2,
         env_now = ''2024-01-01T00:00:00.000Z'' \<rparr> ''0x742d35Cc6634C0532925a3b8D''"
proof -
  have d: "getContractsDeployed 0 ''0x742d35Cc6634C0532925a3b8D'' = 1"
    "getContractsDeployed (1 / 2) ''0x742d35Cc6634C0532925a3b8D'' = 6"
    by code_simp+
  show ?thesis
    by (simp add: checkRewardsEligibility_def getBuilderMetrics_def Let_def d)
qed

text \<open>
  C6, amended. The eligibility predicates and the recommendations that
  \<open>checkRewardsEligibility\<close> returns are determined by the balance and the transaction
  count read from the chain: they are the same for every address, every draw of
  \<^verbatim>\<open>Math.random()\<close> and every clock reading. The recommended tiers of \<open>getOptimalGas\<close>
  are determined by the two fee fields read from the provider, and the activity score by
  the size of the contracts Map and the presence of the wallet. The metrics of the
  eligibility report are not determined by its input: \<open>contractsDeployed\<close> is drawn at
  random and \<open>timestamp\<close> is read from the clock.
\<close>

theorem determined_by_observations:
  "(env_balance e1 = env_balance e2 \<and> env_transactionCount e1 = env_transactionCount e2
      \<and> isDouble (env_random e1) \<and> 0 \<le> env_random e1 \<and> env_random e1 < 1
      \<and> isDouble (env_random e2) \<and> 0 \<le> env_random e2 \<and> env_random e2 < 1
    \<longrightarrow> rr_eligibility (checkRewardsEligibility e1 a1)
          = rr_eligibility (checkRewardsEligibility e2 a2)
      \<and> rr_recommendations (checkRewardsEligibility e1 a1)
          = rr_recommendations (checkRewardsEligibility e2 a2))
   \<and> (getOptimalGas pv1 = Inr r1 \<and> getOptimalGas pv2 = Inr r2
      \<and> fd_maxFeePerGas (pv_feeData pv1) = fd_maxFeePerGas (pv_feeData pv2)
      \<and> fd_maxPriorityFeePerGas (pv_feeData pv1) = fd_maxPriorityFeePerGas (pv_feeData pv2)
    \<longrightarrow> recommended r1 = recommended r2)
   \<and> (map_size (contracts s1) = map_size (contracts s2)
      \<and> (wallet s1 = None) = (wallet s2 = None)
    \<longrightarrow> calculateActivityScore s1 = calculateActivityScore s2)"
proof -
  have elig: "rr_eligibility (checkRewardsEligibility e1 a1)
          = rr_eligibility (checkRewardsEligibility e2 a2)"
      "rr_recommendations (checkRewardsEligibility e1 a1)
          = rr_recommendations (checkRewardsEligibility e2 a2)"
    if "env_balance e1 = env_balance e2"
      and "env_transactionCount e1 = env_transactionCount e2"
      and d1: "isDouble (env_random e1)" "0 \<le> env_random e1" "env_random e1 < 1"
      and d2: "isDouble (env_random e2)" "0 \<le> env_random e2" "env_random e2 < 1"
  proof -
    have "eligibility (getBuilderMetrics ''Base'' e1 a1)
        = eligibility (getBuilderMetrics ''Base'' e2 a2)"
      using that(1,2) scaled_draw_floor(1) [OF d1] scaled_draw_floor(1) [OF d2]
      by (simp add: eligibility_def getBuilderMetrics_def getContractsDeployed_def)
    then show "rr_eligibility (checkRewardsEligibility e1 a1)
          = rr_eligibility (checkRewardsEligibility e2 a2)"
      "rr_recommendations (checkRewardsEligibility e1 a1)
          = rr_recommendations (checkRewardsEligibility e2 a2)"
      by (simp_all add: checkRewardsEligibility_def Let_def)
  qed
  have gas: "recommended r1 = recommended r2"
    if "getOptimalGas pv1 = Inr r1" and "getOptimalGas pv2 = Inr r2"
      and "fd_maxFeePerGas (pv_feeData pv1) = fd_maxFeePerGas (pv_feeData pv2)"
      and "fd_maxPriorityFeePerGas (pv_feeData pv1) = fd_maxPriorityFeePerGas (pv_feeData pv2)"
    using that by (auto simp add: getOptimalGas_def Let_def split: option.splits)
  have score: "calculateActivityScore s1 = calculateActivityScore s2"
    if "map_size (contracts s1) = map_size (contracts s2)"
      and "(wallet s1 = None) = (wallet s2 = None)"
    using that by (auto simp add: calculateActivityScore_def Let_def)
  show ?thesis
    by (intro conjI impI; elim conjE) (rule elig gas score; assumption)+
qed

theorem determined_by_observations_witness:
  "rr_eligibility (checkRewardsEligibility
       \<lparr> env_balance = 20000000000000000, env_transactionCount = 12, env_random = 0,
         env_now = ''2024-01-01T00:00:00.000Z'' \<rparr> ''0x742d35Cc6634C0532925a3b8D'')
    = rr_eligibility (checkRewardsEligibility
       \<lparr> env_balance = 20000000000000000, env_transactionCount = 12, env_random = 1 / 2,
         env_now = ''2024-06-30T12:00:00.000Z'' \<rparr> ''0x4200000000000000000000000000000000000010'')
   \<and> rr_recommendations (checkRewardsEligibility
       \<lparr> env_balance = 20000000000000000, env_transactionCount = 12, env_random = 0,
         env_now = ''2024-01-01T00:00:00.000Z'' \<rparr> ''0x742d35Cc6634C0532925a3b8D'')
    = rr_recommendations (checkRewardsEligibility
       \<lparr> env_balance = 20000000000000000, env_transactionCount = 12, env_random = 1 / 2,
         env_now = ''2024-06-30T12:00:00.000Z'' \<rparr> ''0x4200000000000000000000000000000000000010'')
   \<and> calculateActivityScore \<lparr> contracts = [(''Token'', ''0x01'')], wallet = Some ''0x0a'' \<rparr>
    = calculateActivityScore \<lparr> contracts = [(''Vault'', ''0x02'')], wallet = Some ''0x0b'' \<rparr>"
proof -
  have d: "isDouble 0" "isDouble (1 / 2)" by code_simp+
  have g: "getOptimalGas (feeView 1000 7) =
     Inr \<lparr> og_gasPrice = Some 1000, og_maxFeePerGas = Some 1000,
           og_maxPriorityFeePerGas = Some 7, og_baseFeePerGas = Some 1000,
           recommended =
             \<lparr> slow = \<lparr> maxFeePerGas = 900, maxPriorityFeePerGas = 6 \<rparr>,
               standard = \<lparr> maxFeePerGas = 1000, maxPriorityFeePerGas = 7 \<rparr>,
               fast = \<lparr> maxFeePerGas = 1100, maxPriorityFeePerGas = 7 \<rparr> \<rparr> \<rparr>"
    by (simp add: getOptimalGas_def feeView_def bigPercent_def signed_divide_int_def)
  show ?thesis
    using determined_by_observations [of
      "\<lparr> env_balance = 20000000000000000, env_transactionCount = 12, env_random = 0,
         env_now = ''2024-01-01T00:00:00.000Z'' \<rparr>"
      "\<lparr> env_balance = 20000000000000000, env_transactionCount = 12, env_random = 1 / 2,
         env_now = ''2024-06-30T12:00:00.000Z'' \<rparr>"
      "''0x742d35Cc6634C0532925a3b8D''" "''0x4200000000000000000000000000000000000010''"
      "feeView 1000 7"
      "\<lparr> og_gasPrice = Some 1000, og_maxFeePerGas = Some 1000,
           og_maxPriorityFeePerGas = Some 7, og_baseFeePerGas = Some 1000,
           recommended =
             \<lparr> slow = \<lparr> maxFeePerGas = 900, maxPriorityFeePerGas = 6 \<rparr>,
               standard = \<lparr> maxFeePerGas = 1000, maxPriorityFeePerGas = 7 \<rparr>,
               fast = \<lparr> maxFeePerGas = 1100, maxPriorityFeePerGas = 7 \<rparr> \<rparr> \<rparr>"
      "feeView 1000 7"
      "\<lparr> og_gasPrice = Some 1000, og_maxFeePerGas = Some 1000,
           og_maxPriorityFeePerGas = Some 7, og_baseFeePerGas = Some 1000,
           recommended =
             \<lparr> slow = \<lparr> maxFeePerGas = 900, maxPriorityFeePerGas = 6 \<rparr>,
               standard = \<lparr> maxFeePerGas = 1000, maxPriorityFeePerGas = 7 \<rparr>,
               fast = \<lparr> maxFeePerGas = 1100, maxPriorityFeePerGas = 7 \<rparr> \<rparr> \<rparr>"
      "\<lparr> contracts = [(''Token'', ''0x01'')], wallet = Some ''0x0a'' \<rparr>"
      "\<lparr> contracts = [(''Vault'', ''0x02'')], wallet = Some ''0x0b'' \<rparr>"] d g
    by (simp add: map_size_def)
qed

end
